theory Spec2Isabelle
  imports Main
begin

section \<open>Long-format count tables\<close>

text \<open>
  \<^verbatim>\<open>creator/taxon_merger.py\<close> works on a pandas DataFrame. A frame is modelled by its
  column labels, the names of its column index (\<^verbatim>\<open>df.columns.names\<close>, the one-element
  list \<^verbatim>\<open>[None]\<close> for a frame read from a CSV file) and its rows, one cell per column.
  A cell is a missing value, an integer or a string. Column labels are taken to be unique;
  a label is looked up at its first position.

  The pandas behaviour the function relies on is modelled as pandas documents it for the
  versions that still have \<^verbatim>\<open>DataFrame.append\<close>: \<^verbatim>\<open>groupby\<close> leaves out the rows with a
  missing value in a key column and returns the groups in key order, \<^verbatim>\<open>sum\<close> adds up the
  numeric columns only, and \<^verbatim>\<open>print\<close> has no effect on the result.
\<close>

datatype cell = NaN | Num int | Str string

record DataFrame =
  columns :: "string list"
  columns_names :: "string option list"
  rows :: "cell list list"

text \<open>The result of \<^verbatim>\<open>groupby(...).sum()\<close>: the group keys form the index, the summed
  numeric columns are the data.\<close>

record GroupedFrame =
  index_names :: "string list"
  data_columns :: "string list"
  names :: "string option list"
  entries :: "(cell list \<times> int list) list"

datatype error = ValueError | NoTaxonLevelPresent | KeyError | TypeError | AttributeError

subsection \<open>Strings and labels\<close>

definition lower_char :: "char \<Rightarrow> char" where
  "lower_char c = (let n = (of_char c :: nat) in if 65 \<le> n \<and> n \<le> 90 then char_of (n + 32) else c)"

text \<open>\<^verbatim>\<open>str.lower()\<close> on ASCII text.\<close>

definition lower :: "string \<Rightarrow> string" where
  "lower s = map lower_char s"

text \<open>\<^verbatim>\<open>Index.get_loc\<close> and \<^verbatim>\<open>list.index\<close>: the position of a label.\<close>

fun get_loc :: "string list \<Rightarrow> string \<Rightarrow> nat option" where
  "get_loc [] c = None"
| "get_loc (x # xs) c = (if x = c then Some 0 else map_option Suc (get_loc xs c))"

definition cell_at :: "nat \<Rightarrow> cell list \<Rightarrow> cell" where
  "cell_at i r = (if i < length r then r ! i else NaN)"

definition num_of :: "cell \<Rightarrow> int" where
  "num_of c = (case c of Num n \<Rightarrow> n | _ \<Rightarrow> 0)"

fun drop_nth :: "nat \<Rightarrow> 'a list \<Rightarrow> 'a list" where
  "drop_nth n [] = []"
| "drop_nth 0 (x # xs) = xs"
| "drop_nth (Suc n) (x # xs) = x # drop_nth n xs"

subsection \<open>The order of group keys\<close>

text \<open>\<^verbatim>\<open>groupby\<close> returns its groups sorted by key: integers by value, strings by code
  point, tuples of keys lexicographically.\<close>

fun str_less :: "string \<Rightarrow> string \<Rightarrow> bool" where
  "str_less [] [] = False"
| "str_less [] (y # ys) = True"
| "str_less (x # xs) [] = False"
| "str_less (x # xs) (y # ys) =
     ((of_char x :: nat) < of_char y \<or> (x = y \<and> str_less xs ys))"

fun cell_less :: "cell \<Rightarrow> cell \<Rightarrow> bool" where
  "cell_less (Num a) (Num b) = (a < b)"
| "cell_less (Str a) (Str b) = str_less a b"
| "cell_less (Num a) (Str b) = True"
| "cell_less NaN (Num b) = True"
| "cell_less NaN (Str b) = True"
| "cell_less a b = False"

fun key_less :: "cell list \<Rightarrow> cell list \<Rightarrow> bool" where
  "key_less [] [] = False"
| "key_less [] (y # ys) = True"
| "key_less (x # xs) [] = False"
| "key_less (x # xs) (y # ys) = (cell_less x y \<or> (x = y \<and> key_less xs ys))"

fun insort_key :: "cell list \<Rightarrow> cell list list \<Rightarrow> cell list list" where
  "insort_key k [] = [k]"
| "insort_key k (x # xs) = (if key_less x k then x # insort_key k xs else k # x # xs)"

definition sort_keys :: "cell list list \<Rightarrow> cell list list" where
  "sort_keys ks = foldr insort_key ks []"

subsection \<open>The pandas operations the aggregation uses\<close>

text \<open>Grouping and summing: one entry per distinct key, in key order, holding for each of
  the \<open>n\<close> data columns the sum over the rows with that key.\<close>

definition group_sum :: "(cell list \<times> int list) list \<Rightarrow> nat \<Rightarrow> (cell list \<times> int list) list" where
  "group_sum ps n =
     map (\<lambda>k. (k, map (\<lambda>j. sum_list (map (\<lambda>p. snd p ! j) (filter (\<lambda>p. fst p = k) ps))) [0..<n]))
         (sort_keys (remdups (map fst ps)))"

text \<open>A column is numeric when it holds no string; only numeric columns are summed.\<close>

definition is_numeric :: "DataFrame \<Rightarrow> nat \<Rightarrow> bool" where
  "is_numeric df i = list_all (\<lambda>r. case cell_at i r of Str s \<Rightarrow> False | _ \<Rightarrow> True) (rows df)"

text \<open>Group keys are resolved in order; a key that is \<^verbatim>\<open>None\<close> or names no column raises.\<close>

fun resolve_keys :: "string list \<Rightarrow> string option list \<Rightarrow> error + nat list" where
  "resolve_keys cols [] = Inr []"
| "resolve_keys cols (None # ks) = Inl TypeError"
| "resolve_keys cols (Some c # ks) =
     (case get_loc cols c of
        None \<Rightarrow> Inl KeyError
      | Some i \<Rightarrow> (case resolve_keys cols ks of Inl e \<Rightarrow> Inl e | Inr js \<Rightarrow> Inr (i # js)))"

text \<open>\<^verbatim>\<open>df.groupby(keys).sum()\<close>: rows with a missing value in a key column belong to no
  group and are left out; the other rows are grouped and their numeric columns summed
  (a missing number counts as zero).\<close>

definition groupby_sum :: "DataFrame \<Rightarrow> string option list \<Rightarrow> error + GroupedFrame" where
  "groupby_sum df keys =
     (if keys = [] then Inl ValueError
      else case resolve_keys (columns df) keys of
        Inl e \<Rightarrow> Inl e
      | Inr kis \<Rightarrow>
          (let dis = filter (\<lambda>i. i \<notin> set kis \<and> is_numeric df i) [0..<length (columns df)];
               kept = filter (\<lambda>r. list_all (\<lambda>i. cell_at i r \<noteq> NaN) kis) (rows df);
               ps = map (\<lambda>r. (map (\<lambda>i. cell_at i r) kis, map (\<lambda>i. num_of (cell_at i r)) dis)) kept
           in Inr \<lparr>index_names = map (\<lambda>i. columns df ! i) kis,
                   data_columns = map (\<lambda>i. columns df ! i) dis,
                   names = columns_names df,
                   entries = group_sum ps (length dis)\<rparr>))"

definition reset_index :: "GroupedFrame \<Rightarrow> DataFrame" where
  "reset_index g =
     \<lparr>columns = index_names g @ data_columns g,
      columns_names = names g,
      rows = map (\<lambda>(k, v). k @ map Num v) (entries g)\<rparr>"

text \<open>\<^verbatim>\<open>summed_df.xs(key, level=level)\<close>: the entries whose index holds \<open>key\<close> at the level,
  with that level dropped. It raises KeyError when no entry has the key, and it needs an
  index of several levels.\<close>

definition xs_level :: "GroupedFrame \<Rightarrow> string \<Rightarrow> string \<Rightarrow> error + GroupedFrame" where
  "xs_level g key level =
     (if length (index_names g) < 2 then Inl TypeError
      else case get_loc (index_names g) level of
        None \<Rightarrow> Inl KeyError
      | Some l \<Rightarrow>
          (let sel = filter (\<lambda>e. cell_at l (fst e) = Str key) (entries g)
           in if sel = [] then Inl KeyError
              else Inr (g\<lparr>index_names := drop_nth l (index_names g),
                         entries := map (\<lambda>e. (drop_nth l (fst e), snd e)) sel\<rparr>)))"

text \<open>\<^verbatim>\<open>groupby(keys).sum()\<close> on a grouped frame, the keys naming levels of its index.\<close>

definition groupby_levels_sum :: "GroupedFrame \<Rightarrow> string option list \<Rightarrow> error + GroupedFrame" where
  "groupby_levels_sum g keys =
     (if keys = [] then Inl ValueError
      else case resolve_keys (index_names g) keys of
        Inl e \<Rightarrow> Inl e
      | Inr kis \<Rightarrow>
          Inr (g\<lparr>index_names := map (\<lambda>i. index_names g ! i) kis,
                 entries := group_sum (map (\<lambda>e. (map (\<lambda>i. cell_at i (fst e)) kis, snd e)) (entries g))
                                      (length (data_columns g))\<rparr>))"

definition col_value :: "DataFrame \<Rightarrow> string \<Rightarrow> cell list \<Rightarrow> cell" where
  "col_value df c r = (case get_loc (columns df) c of None \<Rightarrow> NaN | Some i \<Rightarrow> cell_at i r)"

text \<open>\<^verbatim>\<open>a.append(b, ignore_index=True, sort=False)\<close>: the rows of \<open>b\<close> under those of \<open>a\<close>,
  a column missing on one side filled with missing values.\<close>

definition append_df :: "DataFrame \<Rightarrow> DataFrame \<Rightarrow> DataFrame" where
  "append_df a b =
     (let extra = filter (\<lambda>c. c \<notin> set (columns a)) (columns b);
          cols = columns a @ extra
      in \<lparr>columns = cols,
          columns_names = columns_names a,
          rows = map (\<lambda>r. r @ replicate (length extra) NaN) (rows a)
               @ map (\<lambda>r. map (\<lambda>c. col_value b c r) cols) (rows b)\<rparr>)"

text \<open>\<^verbatim>\<open>df[labels]\<close>: the listed columns, KeyError for a label that is no column.\<close>

definition select_columns :: "DataFrame \<Rightarrow> string option list \<Rightarrow> error + DataFrame" where
  "select_columns df labels =
     (case resolve_keys (columns df) labels of
        Inl e \<Rightarrow> Inl KeyError
      | Inr is \<Rightarrow>
          Inr \<lparr>columns = map (\<lambda>i. columns df ! i) is,
               columns_names = columns_names df,
               rows = map (\<lambda>r. map (\<lambda>i. cell_at i r) is) (rows df)\<rparr>)"

text \<open>\<^verbatim>\<open>replace(r'[\[\]]', '', regex=True)\<close> on one cell.\<close>

definition strip_brackets :: "cell \<Rightarrow> cell" where
  "strip_brackets c =
     (case c of Str s \<Rightarrow> Str (filter (\<lambda>x. x \<noteq> CHR ''['' \<and> x \<noteq> CHR '']'') s) | _ \<Rightarrow> c)"

definition replace_brackets :: "DataFrame \<Rightarrow> string list \<Rightarrow> DataFrame" where
  "replace_brackets df cols =
     df\<lparr>rows := map (\<lambda>r. map (\<lambda>i. if columns df ! i \<in> set cols then strip_brackets (cell_at i r)
                                    else cell_at i r) [0..<length (columns df)]) (rows df)\<rparr>"

section \<open>aggregate_at_taxon_level\<close>

definition recognized_taxon_levels :: "string list" where
  "recognized_taxon_levels =
     [''kingdom'', ''phylum'', ''class'', ''order'', ''family'', ''genus'', ''species'']"

definition dummy_levels :: "string list" where
  "dummy_levels = [''k__'', ''p__'', ''c__'', ''o__'', ''f__'', ''g__'', ''s__'']"

fun dict_set :: "(string \<times> string) list \<Rightarrow> string \<Rightarrow> string \<Rightarrow> (string \<times> string) list" where
  "dict_set [] k v = [(k, v)]"
| "dict_set ((k', v') # d) k v = (if k' = k then (k', v) # d else (k', v') # dict_set d k v)"

text \<open>The loop over the user's \<^verbatim>\<open>dummy_values\<close> (source lines 109-115).\<close>

fun process_dummy_values ::
  "(string \<times> string) list \<Rightarrow> (string \<times> string) list \<Rightarrow> error + (string \<times> string) list" where
  "process_dummy_values dummy_dict [] = Inr dummy_dict"
| "process_dummy_values dummy_dict ((key, val) # rest) =
     (if map_of dummy_dict (lower key) = None then Inl ValueError
      else process_dummy_values (dict_set dummy_dict (lower key) val) rest)"

text \<open>The default grouping columns (source lines 161-162):
  \<^verbatim>\<open>upper_index = df.columns.get_loc('kingdom')\<close>,
  \<^verbatim>\<open>grouping_cols = df.columns.names[:upper_index]\<close>.\<close>

definition default_grouping_cols :: "DataFrame \<Rightarrow> error + string option list" where
  "default_grouping_cols df =
     (case get_loc (columns df) ''kingdom'' of
        None \<Rightarrow> Inl KeyError
      | Some upper_index \<Rightarrow> Inr (take upper_index (columns_names df)))"

text \<open>Source lines 182-194: under hierarchical grouping the groups whose target rank holds
  the dummy value are taken out, summed per grouping key and appended without lineage.\<close>

definition collapse_unknown ::
  "GroupedFrame \<Rightarrow> DataFrame \<Rightarrow> string \<Rightarrow> string \<Rightarrow> string option list \<Rightarrow> error + DataFrame" where
  "collapse_unknown summed_df new_df taxon_level dummy grouping_cols =
     (case xs_level summed_df dummy taxon_level of
        Inl e \<Rightarrow> (if e = KeyError then Inr new_df else Inl e)
      | Inr count_unknown_genera \<Rightarrow>
          (case groupby_levels_sum count_unknown_genera grouping_cols of
             Inl e \<Rightarrow> Inl e
           | Inr g \<Rightarrow>
               Inr (append_df
                     (new_df\<lparr>rows := filter (\<lambda>r. col_value new_df taxon_level r \<noteq> Str dummy)
                                            (rows new_df)\<rparr>)
                     (reset_index g))))"

text \<open>\<^verbatim>\<open>new_df.loc[new_df[taxon_level] == dummy, 'count'] = 0\<close> (source line 212).\<close>

definition zero_dummy_counts :: "DataFrame \<Rightarrow> string \<Rightarrow> string \<Rightarrow> DataFrame" where
  "zero_dummy_counts df taxon_level dummy =
     (case get_loc (columns df) ''count'' of
        Some ci \<Rightarrow>
          df\<lparr>rows := map (\<lambda>r. if col_value df taxon_level r = Str dummy then r[ci := Num 0] else r)
                          (rows df)\<rparr>
      | None \<Rightarrow>
          df\<lparr>columns := columns df @ [''count''],
             rows := map (\<lambda>r. r @ [if col_value df taxon_level r = Str dummy then Num 0 else NaN])
                         (rows df)\<rparr>)"

text \<open>Source lines 197-215.\<close>

definition handle_missing ::
  "string \<Rightarrow> GroupedFrame \<Rightarrow> DataFrame \<Rightarrow> string \<Rightarrow> string \<Rightarrow> string list \<Rightarrow> string option list
     \<Rightarrow> error + DataFrame" where
  "handle_missing missing_method summed_df new_df taxon_level dummy required_taxon_levels grouping_cols =
     (if missing_method = ''sum'' then Inr new_df
      else if missing_method = ''remove'' then
        Inr (new_df\<lparr>rows := filter (\<lambda>r. \<not> (col_value new_df taxon_level r = Str dummy
                                            \<or> col_value new_df taxon_level r = NaN))
                                   (rows new_df)\<rparr>)
      else if missing_method = ''zero_counts'' then
        (if \<not> list_all (\<lambda>c. c \<in> set (columns new_df)) required_taxon_levels then Inl KeyError
         else if grouping_cols = [] then Inl ValueError
         else Inr (zero_dummy_counts (reset_index summed_df) taxon_level dummy))
      else Inl ValueError)"

text \<open>Source lines 163-220, after the arguments have been checked.\<close>

definition aggregate_checked ::
  "DataFrame \<Rightarrow> string \<Rightarrow> string \<Rightarrow> string list \<Rightarrow> string list \<Rightarrow> string option list \<Rightarrow> string
     \<Rightarrow> bool \<Rightarrow> bool \<Rightarrow> bool \<Rightarrow> error + DataFrame" where
  "aggregate_checked df taxon_level dummy required_taxon_levels taxon_cols_present grouping_cols
       missing_method check_brackets simple_aggregation keep_all_cols =
     (let cols = (if simple_aggregation then grouping_cols @ [Some taxon_level]
                  else grouping_cols @ map Some required_taxon_levels);
          df1 = (if check_brackets then replace_brackets df taxon_cols_present else df)
      in case groupby_sum df1 cols of
           Inl e \<Rightarrow> Inl e
         | Inr summed_df \<Rightarrow>
             (case (if simple_aggregation then Inr (reset_index summed_df)
                    else collapse_unknown summed_df (reset_index summed_df) taxon_level dummy
                           grouping_cols) of
                Inl e \<Rightarrow> Inl e
              | Inr new_df \<Rightarrow>
                  (case handle_missing missing_method summed_df new_df taxon_level dummy
                          required_taxon_levels grouping_cols of
                     Inl e \<Rightarrow> Inl e
                   | Inr new_df' \<Rightarrow>
                       if keep_all_cols then Inr new_df'
                       else select_columns new_df' (cols @ [Some ''count'']))))"

text \<open>Source lines 101-162: the arguments are normalised and checked.\<close>

definition aggregate_at_taxon_level ::
  "DataFrame \<Rightarrow> string \<Rightarrow> string list \<Rightarrow> (string \<times> string) list \<Rightarrow> string
     \<Rightarrow> bool \<Rightarrow> bool \<Rightarrow> bool \<Rightarrow> error + DataFrame" where
  "aggregate_at_taxon_level df taxon_level grouping_cols dummy_values missing_method
       check_brackets simple_aggregation keep_all_cols =
     (case process_dummy_values (zip recognized_taxon_levels dummy_levels) dummy_values of
        Inl e \<Rightarrow> Inl e
      | Inr dummy_dict \<Rightarrow>
          (case get_loc recognized_taxon_levels (lower taxon_level) of
             None \<Rightarrow> Inl ValueError
           | Some taxon_level_index \<Rightarrow>
               (let required_taxon_levels = take (taxon_level_index + 1) recognized_taxon_levels;
                    taxon_cols_present = filter (\<lambda>c. c \<in> set recognized_taxon_levels) (columns df);
                    columns_not_found = filter (\<lambda>l. l \<notin> set taxon_cols_present) required_taxon_levels
                in if lower taxon_level \<notin> set taxon_cols_present then Inl NoTaxonLevelPresent
                   else if columns_not_found \<noteq> [] then Inl NoTaxonLevelPresent
                   else if grouping_cols \<noteq> [] \<and> filter (\<lambda>c. c \<notin> set (columns df)) grouping_cols \<noteq> []
                     then Inl ValueError
                   else
                     (case (if grouping_cols \<noteq> [] then Inr (map Some grouping_cols)
                            else default_grouping_cols df) of
                        Inl e \<Rightarrow> Inl e
                      | Inr gcols \<Rightarrow>
                          (case map_of dummy_dict (lower taxon_level) of
                             None \<Rightarrow> Inl KeyError
                           | Some dummy \<Rightarrow>
                               aggregate_checked df (lower taxon_level) dummy required_taxon_levels
                                 taxon_cols_present gcols missing_method check_brackets
                                 simple_aggregation keep_all_cols)))))"

section \<open>The reference fixture\<close>

text \<open>The twelve rows of \<^verbatim>\<open>data2\<close> in \<^verbatim>\<open>test/test_taxon_merger.py\<close>, with the columns of the
  test's \<^verbatim>\<open>self.columns\<close>.\<close>

definition test_columns :: "string list" where
  "test_columns = [''experiment_id'', ''subject_id'', ''sample_id'', ''sample_time_id'',
     ''sample_site_id'', ''preperation_id'', ''workflow_id'', ''lineage_id'', ''seq_var_id'',
     ''count'', ''id'', ''kingdom'', ''phylum'', ''class'', ''order'', ''family'', ''genus'',
     ''species'']"

definition test_grouping_cols :: "string list" where
  "test_grouping_cols = [''experiment_id'', ''subject_id'', ''sample_id'', ''sample_time_id'',
     ''sample_site_id'', ''preperation_id'', ''workflow_id'']"

definition test_row :: "int list \<Rightarrow> int \<Rightarrow> int \<Rightarrow> string list \<Rightarrow> cell list" where
  "test_row g i c lineage = map Num g @ [Num i, NaN, Num c, Num i] @ map Str lineage"

definition data2 :: DataFrame where
  "data2 = \<lparr>columns = test_columns, columns_names = [None], rows =
    [test_row [1,1,1,1,1,1,1] 1 1 [''k__A'', ''p__B'', ''c__E'', ''o__H'', ''f__K'', ''g__O'', ''s__q''],
     test_row [1,1,1,1,1,1,1] 2 2 [''k__A'', ''p__C'', ''c__F'', ''o__I'', ''f__L'', ''g__'', ''s__''],
     test_row [1,1,1,1,1,1,1] 3 1 [''k__A'', ''p__D'', ''c__G'', ''o__J'', ''f__M'', ''g__P'', ''s__''],
     test_row [1,1,1,1,1,1,1] 4 2 [''k__A'', ''p__C'', ''c__F'', ''o__I'', ''f__L'', ''g__'', ''s__''],
     test_row [2,2,2,2,2,2,2] 5 1 [''k__A'', ''p__C'', ''c__F'', ''o__I'', ''f__N'', ''g__'', ''s__''],
     test_row [2,2,2,2,2,2,2] 6 2 [''k__A'', ''p__D'', ''c__G'', ''o__J'', ''f__M'', ''g__P'', ''s__''],
     test_row [2,2,2,2,2,2,2] 7 1 [''k__A'', ''p__C'', ''c__F'', ''o__I'', ''f__N'', ''g__'', ''s__''],
     test_row [2,2,2,2,2,2,2] 8 2 [''k__A'', ''p__C'', ''c__F'', ''o__I'', ''f__N'', ''g__'', ''s__''],
     test_row [3,3,3,3,3,3,2] 9 1 [''k__A'', ''p__C'', ''c__F'', ''o__I'', ''f__N'', ''g__'', ''s__''],
     test_row [3,3,3,3,3,3,2] 10 2 [''k__A'', ''p__D'', ''c__G'', ''o__J'', ''f__M'', ''g__P'', ''s__''],
     test_row [3,3,3,3,3,3,2] 11 1 [''k__A'', ''p__C'', ''c__F'', ''o__I'', ''f__L'', ''g__'', ''s__''],
     test_row [3,3,3,3,3,3,2] 12 2 [''k__A'', ''p__D'', ''c__G'', ''o__J'', ''f__M'', ''g__P'', ''s__r'']]\<rparr>"


text \<open>The expected frames of the test module: \<^verbatim>\<open>simple_sum\<close> and \<^verbatim>\<open>complex_sum_genus\<close>.\<close>

definition simple_sum :: DataFrame where
  "simple_sum = \<lparr>columns = test_grouping_cols @ [''genus'', ''count''], columns_names = [None], rows =
     [map Num [1,1,1,1,1,1,1] @ [Str ''g__'', Num 4],
      map Num [1,1,1,1,1,1,1] @ [Str ''g__O'', Num 1],
      map Num [1,1,1,1,1,1,1] @ [Str ''g__P'', Num 1],
      map Num [2,2,2,2,2,2,2] @ [Str ''g__'', Num 4],
      map Num [2,2,2,2,2,2,2] @ [Str ''g__P'', Num 2],
      map Num [3,3,3,3,3,3,2] @ [Str ''g__'', Num 2],
      map Num [3,3,3,3,3,3,2] @ [Str ''g__P'', Num 4]]\<rparr>"

definition genus_prefix_cols :: "string list" where
  "genus_prefix_cols = [''kingdom'', ''phylum'', ''class'', ''order'', ''family'', ''genus'']"

definition complex_sum_genus :: DataFrame where
  "complex_sum_genus =
     \<lparr>columns = test_grouping_cols @ genus_prefix_cols @ [''count''], columns_names = [None], rows =
     [map Num [1,1,1,1,1,1,1] @ map Str [''k__A'', ''p__B'', ''c__E'', ''o__H'', ''f__K'', ''g__O''] @ [Num 1],
      map Num [1,1,1,1,1,1,1] @ map Str [''k__A'', ''p__D'', ''c__G'', ''o__J'', ''f__M'', ''g__P''] @ [Num 1],
      map Num [2,2,2,2,2,2,2] @ map Str [''k__A'', ''p__D'', ''c__G'', ''o__J'', ''f__M'', ''g__P''] @ [Num 2],
      map Num [3,3,3,3,3,3,2] @ map Str [''k__A'', ''p__D'', ''c__G'', ''o__J'', ''f__M'', ''g__P''] @ [Num 4],
      map Num [1,1,1,1,1,1,1] @ replicate 6 NaN @ [Num 4],
      map Num [2,2,2,2,2,2,2] @ replicate 6 NaN @ [Num 4],
      map Num [3,3,3,3,3,3,2] @ replicate 6 NaN @ [Num 2]]\<rparr>"

text \<open>The sum of the \<^verbatim>\<open>count\<close> column of a frame.\<close>

definition total_count :: "DataFrame \<Rightarrow> int" where
  "total_count df = sum_list (map (\<lambda>r. num_of (col_value df ''count'' r)) (rows df))"

text \<open>A table in which one row has no phylum.\<close>

definition missing_phylum :: DataFrame where
  "missing_phylum =
     \<lparr>columns = [''sample_id'', ''kingdom'', ''phylum'', ''count''], columns_names = [None], rows =
       [[Num 1, Str ''k__A'', Str ''p__B'', Num 2],
        [Num 1, Str ''k__A'', NaN, Num 3]]\<rparr>"

text \<open>What the model returns on the fixture for hierarchical grouping at genus under the
  policies \<^verbatim>\<open>zero_counts\<close> and, applied a second time to its own output, \<^verbatim>\<open>sum\<close>.\<close>

definition zero_counts_genus :: DataFrame where
  "zero_counts_genus =
     \<lparr>columns = test_grouping_cols @ genus_prefix_cols @ [''count''], columns_names = [None], rows =
     [map Num [1,1,1,1,1,1,1] @ map Str [''k__A'', ''p__B'', ''c__E'', ''o__H'', ''f__K'', ''g__O''] @ [Num 1],
      map Num [1,1,1,1,1,1,1] @ map Str [''k__A'', ''p__C'', ''c__F'', ''o__I'', ''f__L'', ''g__''] @ [Num 0],
      map Num [1,1,1,1,1,1,1] @ map Str [''k__A'', ''p__D'', ''c__G'', ''o__J'', ''f__M'', ''g__P''] @ [Num 1],
      map Num [2,2,2,2,2,2,2] @ map Str [''k__A'', ''p__C'', ''c__F'', ''o__I'', ''f__N'', ''g__''] @ [Num 0],
      map Num [2,2,2,2,2,2,2] @ map Str [''k__A'', ''p__D'', ''c__G'', ''o__J'', ''f__M'', ''g__P''] @ [Num 2],
      map Num [3,3,3,3,3,3,2] @ map Str [''k__A'', ''p__C'', ''c__F'', ''o__I'', ''f__L'', ''g__''] @ [Num 0],
      map Num [3,3,3,3,3,3,2] @ map Str [''k__A'', ''p__C'', ''c__F'', ''o__I'', ''f__N'', ''g__''] @ [Num 0],
      map Num [3,3,3,3,3,3,2] @ map Str [''k__A'', ''p__D'', ''c__G'', ''o__J'', ''f__M'', ''g__P''] @ [Num 4]]\<rparr>"

definition complex_sum_genus_again :: DataFrame where
  "complex_sum_genus_again =
     \<lparr>columns = test_grouping_cols @ genus_prefix_cols @ [''count''], columns_names = [None], rows =
     [map Num [1,1,1,1,1,1,1] @ map Str [''k__A'', ''p__B'', ''c__E'', ''o__H'', ''f__K'', ''g__O''] @ [Num 1],
      map Num [1,1,1,1,1,1,1] @ map Str [''k__A'', ''p__D'', ''c__G'', ''o__J'', ''f__M'', ''g__P''] @ [Num 1],
      map Num [2,2,2,2,2,2,2] @ map Str [''k__A'', ''p__D'', ''c__G'', ''o__J'', ''f__M'', ''g__P''] @ [Num 2],
      map Num [3,3,3,3,3,3,2] @ map Str [''k__A'', ''p__D'', ''c__G'', ''o__J'', ''f__M'', ''g__P''] @ [Num 4]]\<rparr>"

text \<open>The grouping-key values and the lineage prefixes up to genus of a row of the fixture
  (seven grouping columns first, the rank columns from position 11).\<close>

definition fixture_key :: "cell list \<Rightarrow> cell list" where
  "fixture_key r = take 7 r"

definition fixture_genus_prefix :: "cell list \<Rightarrow> cell list" where
  "fixture_genus_prefix r = take 6 (drop 11 r)"

subsection \<open>Notions used to state the properties\<close>









section \<open>Trees and the parent index\<close>

text \<open>
  A tree of \<^verbatim>\<open>Bio.Phylo\<close> is a root clade; a clade has an optional name and a list of child
  clades. Clades are objects, compared by identity: a clade of a tree is identified here by
  its position, the list of child indices that leads to it from the root. The length of
  that list is the depth of the clade.
\<close>

datatype clade = Clade (name: "string option") (clades: "clade list")

type_synonym node = "nat list"

fun subclade :: "clade \<Rightarrow> node \<Rightarrow> clade option" where
  "subclade c [] = Some c"
| "subclade c (i # p) = (if i < length (clades c) then subclade (clades c ! i) p else None)"











definition example_tree :: clade where
  "example_tree =
     Clade None [Clade (Some ''k__A'') [Clade (Some ''ACGT'') [], Clade (Some ''TTGA'') []],
                 Clade (Some ''GGCC'') []]"

section \<open>Extraction of counts\<close>

text \<open>
  \<^verbatim>\<open>creator/count_parser.py\<close>. A BIOM table is modelled by its observation ids, its stored
  entries and its observation metadata (\<^verbatim>\<open>None\<close> when the table has none). Reading the
  table and the tree from their files is outside the model: \<^verbatim>\<open>get_counts\<close> takes the table
  and the tree, \<^verbatim>\<open>None\<close> when the directory holds no tree file.
\<close>

text \<open>The clades of a tree in preorder, the order in which \<^verbatim>\<open>find_elements\<close> and
  \<^verbatim>\<open>find_any\<close> search.\<close>

fun preorder :: "node \<Rightarrow> clade \<Rightarrow> (node \<times> clade) list"
  and preorder_list :: "node \<Rightarrow> nat \<Rightarrow> clade list \<Rightarrow> (node \<times> clade) list" where
  "preorder a (Clade n cs) = (a, Clade n cs) # preorder_list a 0 cs"
| "preorder_list a i [] = []"
| "preorder_list a i (c # cs) = preorder (a @ [i]) c @ preorder_list a (Suc i) cs"

text \<open>\<^verbatim>\<open>tree.find_any(name=obs_id)\<close>: the first clade, in preorder, with that name.\<close>

definition find_any :: "clade \<Rightarrow> string \<Rightarrow> node option" where
  "find_any tree nm = map_option fst (find (\<lambda>x. name (snd x) = Some nm) (preorder [] tree))"

fun contains_dunder :: "string \<Rightarrow> bool" where
  "contains_dunder (a # b # s) = ((a = CHR ''_'' \<and> b = CHR ''_'') \<or> contains_dunder (b # s))"
| "contains_dunder s = False"

text \<open>get_tree_taxa: the clades whose name matches \<^verbatim>\<open>.*__.*\<close>.\<close>

definition get_tree_taxa :: "clade \<Rightarrow> node list" where
  "get_tree_taxa tree =
     map fst (filter (\<lambda>x. case name (snd x) of None \<Rightarrow> False | Some s \<Rightarrow> contains_dunder s)
                     (preorder [] tree))"

text \<open>\<^verbatim>\<open>taxon.is_parent_of(target)\<close>: the target lies in the subtree of the taxon.\<close>

definition is_parent_of :: "node \<Rightarrow> node \<Rightarrow> bool" where
  "is_parent_of taxon target = (take (length taxon) target = taxon)"

text \<open>The pattern \<^verbatim>\<open>taxon_name_re\<close>, \<^verbatim>\<open>([\d.]+:)?(?P<name>\w__[\w\d_-]*)\<close>, on ASCII text:
  \<open>match_name\<close> matches the group \<^verbatim>\<open>name\<close> at the start of a string, \<open>match_here\<close> the
  whole pattern (with the optional branch length first, without it otherwise), and
  \<open>finditer\<close> gives the group \<^verbatim>\<open>name\<close> of the successive matches.\<close>

definition is_digit :: "char \<Rightarrow> bool" where
  "is_digit c = (let n = (of_char c :: nat) in 48 \<le> n \<and> n \<le> 57)"

definition is_word :: "char \<Rightarrow> bool" where
  "is_word c = (let n = (of_char c :: nat)
                in (48 \<le> n \<and> n \<le> 57) \<or> (65 \<le> n \<and> n \<le> 90) \<or> (97 \<le> n \<and> n \<le> 122) \<or> n = 95)"

definition is_branch_char :: "char \<Rightarrow> bool" where
  "is_branch_char c = (is_digit c \<or> c = CHR ''.'')"

definition is_name_char :: "char \<Rightarrow> bool" where
  "is_name_char c = (is_word c \<or> c = CHR ''-'')"

fun match_name :: "string \<Rightarrow> (string \<times> string) option" where
  "match_name (a # b # c # rest) =
     (if is_word a \<and> b = CHR ''_'' \<and> c = CHR ''_''
      then Some (a # b # c # takeWhile is_name_char rest, dropWhile is_name_char rest)
      else None)"
| "match_name s = None"

definition match_here :: "string \<Rightarrow> (string \<times> string) option" where
  "match_here s =
     (let after = dropWhile is_branch_char s
      in case (if takeWhile is_branch_char s \<noteq> [] \<and> after \<noteq> [] \<and> hd after = CHR '':''
               then match_name (tl after) else None) of
           Some r \<Rightarrow> Some r
         | None \<Rightarrow> match_name s)"

lemma match_name_shorter: "match_name s = Some (nm, rest) \<Longrightarrow> length rest < length s"
proof (induction s rule: match_name.induct)
  case (1 a b c rest)
  have "length (dropWhile is_name_char rest) \<le> length rest"
    by (rule length_dropWhile_le)
  with 1 show ?case by (auto split: if_splits)
qed auto

lemma match_here_shorter: "match_here s = Some (nm, rest) \<Longrightarrow> length rest < length s"
proof -
  assume m: "match_here s = Some (nm, rest)"
  have le: "length (dropWhile is_branch_char s) \<le> length s"
    by (rule length_dropWhile_le)
  show ?thesis
  proof (cases "match_name s = Some (nm, rest)")
    case True
    then show ?thesis by (rule match_name_shorter)
  next
    case False
    with m have "match_name (tl (dropWhile is_branch_char s)) = Some (nm, rest)"
      by (auto simp: match_here_def Let_def split: if_splits option.splits)
    then have "length rest < length (tl (dropWhile is_branch_char s))"
      by (rule match_name_shorter)
    with le show ?thesis by simp
  qed
qed

function finditer :: "string \<Rightarrow> string list" where
  "finditer [] = []"
| "finditer (c # s) =
     (case match_here (c # s) of
        Some (nm, rest) \<Rightarrow> nm # finditer rest
      | None \<Rightarrow> finditer s)"
  by pat_completeness auto
termination
  by (relation "measure length") (auto dest: match_here_shorter)


text \<open>The table, \<^verbatim>\<open>table.nonzero()\<close>, \<^verbatim>\<open>table.get_value_by_ids\<close> and
  \<^verbatim>\<open>table.metadata(obs_id, axis='observation')\<close>; the metadata of one observation is a
  dictionary.\<close>

record Table =
  observation_ids :: "string list"
  matrix :: "((string \<times> string) \<times> int) list"
  observation_metadata :: "(string \<times> (string \<times> string list) list) list option"

definition nonzero :: "Table \<Rightarrow> (string \<times> string) list" where
  "nonzero table = map fst (filter (\<lambda>e. snd e \<noteq> 0) (matrix table))"

definition get_value_by_ids :: "Table \<Rightarrow> string \<Rightarrow> string \<Rightarrow> int" where
  "get_value_by_ids table obs_id samp_id =
     (case map_of (matrix table) (obs_id, samp_id) of None \<Rightarrow> 0 | Some v \<Rightarrow> v)"

definition metadata :: "Table \<Rightarrow> string \<Rightarrow> (string \<times> string list) list option" where
  "metadata table obs_id =
     (case observation_metadata table of
        None \<Rightarrow> None
      | Some md \<Rightarrow> (case map_of md obs_id of None \<Rightarrow> Some [] | Some d \<Rightarrow> Some d))"

text \<open>\<^verbatim>\<open>model.Lineage\<close> and \<^verbatim>\<open>CountElement\<close>. \<^verbatim>\<open>Lineage(**dict(zip(names, values)))\<close> fills
  the seven ranks from the first seven values; a rank without a value stays \<^verbatim>\<open>None\<close>.\<close>

record Lineage =
  kingdom_ :: "string option"
  phylum_ :: "string option"
  class_ :: "string option"
  order_ :: "string option"
  family_ :: "string option"
  genus_ :: "string option"
  species_ :: "string option"

record CountElement =
  count :: int
  lineage :: Lineage
  seq_var :: "string option"

definition nth_or_none :: "string option list \<Rightarrow> nat \<Rightarrow> string option" where
  "nth_or_none vs i = (if i < length vs then vs ! i else None)"

definition make_lineage :: "string option list \<Rightarrow> Lineage" where
  "make_lineage vs =
     \<lparr>kingdom_ = nth_or_none vs 0, phylum_ = nth_or_none vs 1, class_ = nth_or_none vs 2,
      order_ = nth_or_none vs 3, family_ = nth_or_none vs 4, genus_ = nth_or_none vs 5,
      species_ = nth_or_none vs 6\<rparr>"

definition taxa_prefix :: "string list" where
  "taxa_prefix = [''k__'', ''p__'', ''c__'', ''o__'', ''f__'', ''g__'', ''s__'']"

text \<open>\<^verbatim>\<open>get_lineage_from_tree\<close> (source lines 186-203); \<open>taxa_loop\<close> is its loop over the taxa.\<close>

fun taxa_loop ::
  "clade \<Rightarrow> node \<Rightarrow> node list \<Rightarrow> (string \<times> string) list \<Rightarrow> error + (string \<times> string) list" where
  "taxa_loop tree leaf [] found = Inr found"
| "taxa_loop tree leaf (taxon # taxa) found =
     (if is_parent_of taxon leaf then
        (case Option.bind (subclade tree taxon) name of
           None \<Rightarrow> Inl TypeError
         | Some nm \<Rightarrow>
             taxa_loop tree leaf taxa
               (foldl (\<lambda>l taxon_name. dict_set l (take 3 taxon_name) taxon_name) found (finditer nm)))
      else taxa_loop tree leaf taxa found)"

definition get_lineage_from_tree ::
  "string \<Rightarrow> clade option \<Rightarrow> node list option \<Rightarrow> error + string option list" where
  "get_lineage_from_tree obs_id tree taxa =
     (case tree of
        None \<Rightarrow> Inl AttributeError
      | Some t \<Rightarrow>
          (case find_any t obs_id of
             None \<Rightarrow> Inr (replicate (length taxa_prefix) None)
           | Some leaf \<Rightarrow>
               (case taxa of
                  None \<Rightarrow> Inl TypeError
                | Some tx \<Rightarrow>
                    (case taxa_loop t leaf tx (zip taxa_prefix taxa_prefix) of
                       Inl e \<Rightarrow> Inl e
                     | Inr l \<Rightarrow> Inr (map (\<lambda>kv. Some (snd kv)) l)))))"

text \<open>\<^verbatim>\<open>get_lineage\<close> (source lines 152-161): the subscript on the metadata raises TypeError
  when the table has no metadata, and only then the tree is used.\<close>

definition get_lineage ::
  "Table \<Rightarrow> string \<Rightarrow> clade option \<Rightarrow> node list option \<Rightarrow> error + Lineage" where
  "get_lineage table obs_id tree taxa =
     (case (case metadata table obs_id of
              None \<Rightarrow> get_lineage_from_tree obs_id tree taxa
            | Some d \<Rightarrow>
                (case map_of d ''taxonomy'' of
                   None \<Rightarrow> Inl TypeError
                 | Some taxonomy \<Rightarrow> Inr (map Some taxonomy))) of
        Inl e \<Rightarrow> Inl e
      | Inr l \<Rightarrow> Inr (make_lineage l))"

fun get_lineage_map_loop ::
  "Table \<Rightarrow> clade option \<Rightarrow> node list option \<Rightarrow> string list \<Rightarrow> (string \<rightharpoonup> Lineage)
     \<Rightarrow> error + (string \<rightharpoonup> Lineage)" where
  "get_lineage_map_loop table tree taxa [] lineage_map = Inr lineage_map"
| "get_lineage_map_loop table tree taxa (obs_id # ids) lineage_map =
     (case get_lineage table obs_id tree taxa of
        Inl e \<Rightarrow> Inl e
      | Inr l \<Rightarrow> get_lineage_map_loop table tree taxa ids (lineage_map(obs_id \<mapsto> l)))"

definition get_lineage_map ::
  "Table \<Rightarrow> clade option \<Rightarrow> node list option \<Rightarrow> error + (string \<rightharpoonup> Lineage)" where
  "get_lineage_map table tree taxa =
     get_lineage_map_loop table tree taxa (observation_ids table) Map.empty"

text \<open>\<^verbatim>\<open>re.match('[ATGCN]+', s)\<close> succeeds when \<open>s\<close> starts with one of the five letters.\<close>

definition match_nucleotides :: "string \<Rightarrow> bool" where
  "match_nucleotides s = (case s of [] \<Rightarrow> False | c # cs \<Rightarrow> c \<in> set ''ATGCN'')"

text \<open>\<^verbatim>\<open>counts[samp_id].append(count_elem)\<close> on the \<^verbatim>\<open>defaultdict(list)\<close>.\<close>

fun counts_append ::
  "(string \<times> CountElement list) list \<Rightarrow> string \<Rightarrow> CountElement \<Rightarrow> (string \<times> CountElement list) list" where
  "counts_append [] k e = [(k, [e])]"
| "counts_append ((k', es) # d) k e =
     (if k' = k then (k', es @ [e]) # d else (k', es) # counts_append d k e)"

text \<open>\<^verbatim>\<open>get_counts\<close> (source lines 126-135).\<close>

fun get_counts_loop ::
  "Table \<Rightarrow> (string \<rightharpoonup> Lineage) \<Rightarrow> (string \<times> string) list \<Rightarrow> (string \<times> CountElement list) list
     \<Rightarrow> error + (string \<times> CountElement list) list" where
  "get_counts_loop table lineage_map [] counts = Inr counts"
| "get_counts_loop table lineage_map ((obs_id, samp_id) # rest) counts =
     (case lineage_map obs_id of
        None \<Rightarrow> Inl KeyError
      | Some l \<Rightarrow>
          get_counts_loop table lineage_map rest
            (counts_append counts samp_id
               \<lparr>count = get_value_by_ids table obs_id samp_id,
                lineage = l,
                seq_var = (if match_nucleotides samp_id then Some samp_id else None)\<rparr>))"

definition get_counts :: "Table \<Rightarrow> clade option \<Rightarrow> error + (string \<times> CountElement list) list" where
  "get_counts table tree =
     (let taxa = map_option get_tree_taxa tree
      in case get_lineage_map table tree taxa of
           Inl e \<Rightarrow> Inl e
         | Inr lineage_map \<Rightarrow> get_counts_loop table lineage_map (nonzero table) [])"

text \<open>Two small tables: one with taxonomy metadata, holding a sequence and an OTU id as
  observations, and one without observation metadata.\<close>

definition otu_table :: Table where
  "otu_table =
     \<lparr>observation_ids = [''TACGGAGGATCC'', ''4479944''],
      matrix = [((''TACGGAGGATCC'', ''10317.000001''), 5), ((''4479944'', ''Control.1''), 2),
                ((''4479944'', ''10317.000001''), 0)],
      observation_metadata =
        Some [(''TACGGAGGATCC'', [(''taxonomy'', [''k__Bacteria'', ''p__Firmicutes''])]),
              (''4479944'', [(''taxonomy'', [''k__Bacteria'', ''p__Bacteroidetes''])])]\<rparr>"

definition bare_table :: Table where
  "bare_table =
     \<lparr>observation_ids = [''TACGGAGGATCC''],
      matrix = [((''TACGGAGGATCC'', ''10317.000001''), 5)],
      observation_metadata = None\<rparr>"

section \<open>Properties of the aggregation\<close>

subsection \<open>Rank names\<close>

lemma lower_char_idem: "lower_char (lower_char c) = lower_char c"
proof (cases "65 \<le> (of_char c :: nat) \<and> (of_char c :: nat) \<le> 90")
  case True
  then have "(of_char (char_of (of_char c + 32 :: nat)) :: nat) = of_char c + 32"
    by (simp add: of_char_of)
  with True show ?thesis
    by (simp add: lower_char_def Let_def)
next
  case False
  then show ?thesis
    by (auto simp: lower_char_def Let_def)
qed

lemma lower_idem: "lower (lower s) = lower s"
  by (simp add: lower_def lower_char_idem)

lemma process_dummy_values_lower:
  "process_dummy_values dd (map (\<lambda>(k, v). (lower k, v)) dv) = process_dummy_values dd dv"
  by (induction dv arbitrary: dd) (auto simp: lower_idem)

text \<open>
  C10. Rank names are case-insensitive: the result of the call (a frame or the error raised)
  depends on \<^verbatim>\<open>taxon_level\<close> and on the keys of \<^verbatim>\<open>dummy_values\<close> only through their
  lower-case forms, so any casing of a rank name behaves as the lower-case name does.
\<close>

theorem rank_names_case_insensitive:
  assumes "lower taxon_level = lower taxon_level'"
    and "map (\<lambda>(k, v). (lower k, v)) dummy_values = map (\<lambda>(k, v). (lower k, v)) dummy_values'"
  shows "aggregate_at_taxon_level df taxon_level grouping_cols dummy_values missing_method
           check_brackets simple_aggregation keep_all_cols
       = aggregate_at_taxon_level df taxon_level' grouping_cols dummy_values' missing_method
           check_brackets simple_aggregation keep_all_cols"
proof -
  have dummy: "process_dummy_values (zip recognized_taxon_levels dummy_levels) dummy_values
      = process_dummy_values (zip recognized_taxon_levels dummy_levels) dummy_values'"
    using assms(2) process_dummy_values_lower by metis
  show ?thesis
    unfolding aggregate_at_taxon_level_def assms(1) dummy by (rule refl)
qed

theorem rank_names_case_insensitive_witness:
  "lower ''Genus'' = lower ''GENUS''
   \<and> map (\<lambda>(k, v). (lower k, v)) [(''Genus'', ''CUSTOM'')] = map (\<lambda>(k, v). (lower k, v)) [(''GENUS'', ''CUSTOM'')]
   \<and> aggregate_at_taxon_level data2 ''Genus'' test_grouping_cols [(''Genus'', ''CUSTOM'')] ''sum'' True True False
     = aggregate_at_taxon_level data2 ''GENUS'' test_grouping_cols [(''GENUS'', ''CUSTOM'')] ''sum'' True True False"
proof -
  have a: "lower ''Genus'' = lower ''GENUS''"
    by code_simp
  have b: "map (\<lambda>(k, v). (lower k, v)) [(''Genus'', ''CUSTOM'')]
         = map (\<lambda>(k, v). (lower k, v)) [(''GENUS'', ''CUSTOM'')]"
    by code_simp
  show ?thesis
    using a b rank_names_case_insensitive [OF a b] by simp
qed

subsection \<open>The reference scenario\<close>

text \<open>
  C4. The twelve-row fixture, aggregated at genus with simple aggregation and policy
  \<^verbatim>\<open>sum\<close> over the seven grouping columns, gives exactly the seven rows of the test's
  expected frame: group (1,1,1,1,1,1,1) with g__ 4, g__O 1, g__P 1; group (2,2,2,2,2,2,2)
  with g__ 4, g__P 2; group (3,3,3,3,3,3,2) with g__ 2, g__P 4.
\<close>

theorem simple_sum_reference_scenario:
  "aggregate_at_taxon_level data2 ''genus'' test_grouping_cols [] ''sum'' True True False
     = Inr simple_sum"
  by code_simp


subsection \<open>Rows without a value at the target rank\<close>

text \<open>
  C1 (conservation under policy \<^verbatim>\<open>sum\<close>). The function's docstring says that rows whose
  target rank is missing are summed and kept. On a table whose second row has no phylum the
  call at phylum returns, with simple and with hierarchical grouping, only the row of the
  first group: the counts add up to 2, those of the input to 5.
\<close>

theorem sum_policy_loses_missing_rank_rows:
  "aggregate_at_taxon_level missing_phylum ''phylum'' [''sample_id''] [] ''sum'' True True False
     = Inr \<lparr>columns = [''sample_id'', ''phylum'', ''count''], columns_names = [None],
            rows = [[Num 1, Str ''p__B'', Num 2]]\<rparr>
   \<and> aggregate_at_taxon_level missing_phylum ''phylum'' [''sample_id''] [] ''sum'' True False False
     = Inr \<lparr>columns = [''sample_id'', ''kingdom'', ''phylum'', ''count''], columns_names = [None],
            rows = [[Num 1, Str ''k__A'', Str ''p__B'', Num 2]]\<rparr>
   \<and> total_count missing_phylum = 5"
  by code_simp

text \<open>
  C5 (idempotence). Hierarchical aggregation of the fixture at genus gives the seven rows of
  the test's \<^verbatim>\<open>complex_sum_genus\<close>, three of them without lineage; aggregating that frame
  again in the same way returns only the four rows that have a lineage.
\<close>

theorem reaggregation_loses_unclassified_rows:
  "aggregate_at_taxon_level data2 ''genus'' test_grouping_cols [] ''sum'' True False False
     = Inr complex_sum_genus
   \<and> aggregate_at_taxon_level complex_sum_genus ''genus'' test_grouping_cols [] ''sum'' True False False
     = Inr complex_sum_genus_again
   \<and> length (rows complex_sum_genus) = 7
   \<and> length (rows complex_sum_genus_again) = 4"
  by code_simp

subsection \<open>Policy zero_counts\<close>

text \<open>
  C3 (densification). The fixture has three grouping-key values and four lineage prefixes up
  to genus, so the claim asks for twelve rows. The call returns the eight groups that occur,
  the count of the groups with the dummy genus set to 0, and inserts no row.
\<close>

theorem zero_counts_not_densified:
  "aggregate_at_taxon_level data2 ''genus'' test_grouping_cols [] ''zero_counts'' True False False
     = Inr zero_counts_genus
   \<and> length (rows zero_counts_genus) = 8
   \<and> length (remdups (map fixture_key (rows data2))) = 3
   \<and> length (remdups (map fixture_genus_prefix (rows data2))) = 4"
  by code_simp

subsection \<open>Default grouping columns\<close>

text \<open>
  C6. With an empty \<^verbatim>\<open>grouping_cols\<close> the fixture's grouping columns become the names of
  the column index, \<^verbatim>\<open>[None]\<close>, not the eleven labels to the left of kingdom, and the
  grouping then fails.
\<close>

theorem default_grouping_cols_are_index_names:
  "default_grouping_cols data2 = Inr [None]
   \<and> get_loc (columns data2) ''kingdom'' = Some 11
   \<and> take 11 (columns data2) =
       [''experiment_id'', ''subject_id'', ''sample_id'', ''sample_time_id'', ''sample_site_id'',
        ''preperation_id'', ''workflow_id'', ''lineage_id'', ''seq_var_id'', ''count'', ''id'']
   \<and> aggregate_at_taxon_level data2 ''genus'' [] [] ''sum'' True False False = Inl TypeError
   \<and> aggregate_at_taxon_level data2 ''genus'' [] [] ''sum'' True True False = Inl TypeError"
  by code_simp



subsection \<open>Hierarchical grouping under policy sum\<close>




































section \<open>Properties of the parent index\<close>





















section \<open>Properties of the extraction\<close>

text \<open>
  C7. The sequencing variant of a count element is decided by the sample id: the sequence
  \<^verbatim>\<open>TACGGAGGATCC\<close> observed in sample \<^verbatim>\<open>10317.000001\<close> gets no sequencing variant, and the
  OTU \<^verbatim>\<open>4479944\<close> observed in sample \<^verbatim>\<open>Control.1\<close> gets the sample id as its variant.
\<close>

theorem seq_var_follows_sample_id:
  "get_counts otu_table None =
     Inr [(''10317.000001'',
           [\<lparr>count = 5,
             lineage = make_lineage [Some ''k__Bacteria'', Some ''p__Firmicutes''],
             seq_var = None\<rparr>]),
          (''Control.1'',
           [\<lparr>count = 2,
             lineage = make_lineage [Some ''k__Bacteria'', Some ''p__Bacteroidetes''],
             seq_var = Some ''Control.1''\<rparr>])]"
  by code_simp

text \<open>
  C9. For a table without observation metadata the extraction raises AttributeError when
  there is no tree. With a tree in which the observation id names no clade it returns a
  count element whose lineage is \<^verbatim>\<open>None\<close> at the seven ranks.
\<close>

theorem extraction_without_tree_raises:
  "get_counts bare_table None = Inl AttributeError
   \<and> get_counts bare_table (Some example_tree) =
       Inr [(''10317.000001'',
             [\<lparr>count = 5, lineage = make_lineage (replicate 7 None), seq_var = None\<rparr>])]"
  by code_simp

end
